theory Spec2Isabelle
  imports Main "HOL-Library.Sublist" "HOL-Library.Word"
begin

section \<open>JavaScript values and strings\<close>

text \<open>
  The hook \<open>useRegisterIPAgent\<close> catches whatever its collaborators throw
  (\<open>catch (error: any)\<close>) and inspects the caught value with \<open>error?.message\<close> and
  \<open>String(error)\<close>. A thrown value is therefore modelled by what those two operations
  can observe: \<open>undefined\<close>, \<open>null\<close>, a string primitive, or an object given by its
  \<open>message\<close> property (\<open>None\<close> when the object has none) and by its string conversion.
  A string is the sequence of its UTF-16 code units, as in JavaScript, so that \<open>length\<close>
  is \<open>.length\<close>; \<open>lit\<close> gives the string of an ASCII literal of the source.
\<close>

type_synonym jsstring = "16 word list"

definition lit :: "string \<Rightarrow> jsstring" where
  "lit s = map of_char s"

datatype jsval = Undefined | Null | Str jsstring | Obj "jsstring option" jsstring

text \<open>\<open>String(v)\<close>.\<close>

fun js_String :: "jsval \<Rightarrow> jsstring" where
  "js_String Undefined = lit ''undefined''"
| "js_String Null = lit ''null''"
| "js_String (Str s) = s"
| "js_String (Obj m t) = t"

text \<open>\<open>v?.message\<close>: \<open>undefined\<close> (here \<open>None\<close>) on \<open>null\<close>, \<open>undefined\<close> and on values without the property.\<close>

fun opt_message :: "jsval \<Rightarrow> jsstring option" where
  "opt_message (Obj m t) = m"
| "opt_message v = None"

text \<open>\<open>new Error(msg)\<close>: \<open>Error.prototype.toString\<close> gives the name alone for an empty message.\<close>

definition new_Error :: "jsstring \<Rightarrow> jsval" where
  "new_Error msg = Obj (Some msg) (if msg = [] then lit ''Error'' else lit ''Error: '' @ msg)"

text \<open>The engine's own errors: reading a property of \<open>null\<close> or \<open>undefined\<close>, and an unbound identifier.\<close>

definition TypeError :: "jsstring \<Rightarrow> jsval" where
  "TypeError msg = Obj (Some msg) (lit ''TypeError: '' @ msg)"

definition ReferenceError :: "jsstring \<Rightarrow> jsval" where
  "ReferenceError msg = Obj (Some msg) (lit ''ReferenceError: '' @ msg)"

text \<open>Truthiness of an optional string, and the two uses of \<open>||\<close> in the source.\<close>

fun truthy :: "jsstring option \<Rightarrow> bool" where
  "truthy None = False"
| "truthy (Some s) = (s \<noteq> [])"

definition or_else :: "jsstring option \<Rightarrow> jsstring \<Rightarrow> jsstring" where
  "or_else a b = (case a of Some s \<Rightarrow> (if s \<noteq> [] then s else b) | None \<Rightarrow> b)"

definition or_opt :: "jsstring option \<Rightarrow> jsstring option \<Rightarrow> jsstring option" where
  "or_opt a b = (if truthy a then a else b)"

text \<open>\<open>s.startsWith(p)\<close> and \<open>s.includes(sub)\<close>.\<close>

definition startsWith :: "jsstring \<Rightarrow> jsstring \<Rightarrow> bool" where
  "startsWith s p = (take (length p) s = p)"

definition js_includes :: "jsstring \<Rightarrow> jsstring \<Rightarrow> bool" where
  "js_includes s sub = sublist sub s"

text \<open>The value reported to the caller by the top-level handler: \<open>error?.message || String(error)\<close>.\<close>

definition error_text :: "jsval \<Rightarrow> jsstring" where
  "error_text e = or_else (opt_message e) (js_String e)"

section \<open>Data model\<close>

datatype status =
  Idle | Compressing | UploadingImage | CreatingMetadata | UploadingMetadata | Minting
  | Success | Error

text \<open>
  \<open>RegisterState\<close>. The field \<open>error\<close> holds \<open>null\<close> or the caught value itself; an
  absent \<open>ipId\<close> or \<open>txHash\<close> is \<open>None\<close>.
\<close>

record RegisterState =
  status :: status
  progress :: nat
  error :: jsval
  ipId :: "jsstring option"
  txHash :: "jsstring option"

record RegisterIntent =
  title :: "jsstring option"
  prompt :: "jsstring option"

record File =
  file_name :: jsstring
  file_type :: jsstring
  file_data :: "nat list"

record Creator =
  creator_name :: jsstring
  creator_address :: jsstring
  contributionPercent :: nat

record AiMetadata =
  ai_prompt :: jsstring
  generator :: jsstring
  model :: jsstring

record IpMetadata =
  ip_title :: jsstring
  ip_description :: jsstring
  ip_image :: jsstring
  imageHash :: jsstring
  mediaUrl :: jsstring
  mediaHash :: jsstring
  mediaType :: jsstring
  creators :: "Creator list"
  aiMetadata :: "AiMetadata option"

record Attribute =
  trait_type :: jsstring
  trait_value :: jsstring

record NftMetadata =
  nft_name :: jsstring
  nft_description :: jsstring
  nft_image :: jsstring
  nft_ipMetadataURI :: jsstring
  attributes :: "Attribute list"

datatype json = IpJson IpMetadata | NftJson NftMetadata

record UploadResult =
  cid :: "jsstring option"
  url :: "jsstring option"

text \<open>The \<open>ipMetadata\<close> argument of \<open>mintAndRegisterIp\<close> and the whole request.\<close>

record MintMetadata =
  ipMetadataURI :: jsstring
  ipMetadataHash :: jsstring
  nftMetadataURI :: jsstring
  nftMetadataHash :: jsstring

record MintRequest =
  spgNftContract :: jsstring
  recipient :: "jsstring option"
  ipMetadata :: MintMetadata
  allowDuplicates :: bool

datatype MintResult = MintResult (result_ipId: "jsstring option") (result_txHash: "jsstring option")

text \<open>
  What \<open>executeRegister\<close> returns: \<open>{success: true, ipId, txHash, imageUrl, ipMetadataUrl,
  nftMetadataUrl}\<close> or \<open>{success: false, error}\<close>.
\<close>

datatype RegisterResult =
  Registered "jsstring option" "jsstring option" jsstring jsstring jsstring
  | Failed jsstring

fun success :: "RegisterResult \<Rightarrow> bool" where
  "success (Registered i t u1 u2 u3) = True"
| "success (Failed m) = False"

section \<open>The collaborators\<close>

text \<open>
  Everything the hook imports or reads from React context is a parameter. An awaited
  call reads and changes the outside world \<open>'w\<close> and either rejects with a value
  (\<open>Inl\<close>) or resolves (\<open>Inr\<close>); the three synchronous helpers of \<open>@/lib/utils/ipfs\<close>
  depend on their argument only and may throw.
\<close>

record 'w env =
  address :: "jsstring option"
  chainId :: int
  SPG_COLLECTION_ADDRESS :: jsstring
  switchChainAsync :: "int \<Rightarrow> 'w \<Rightarrow> (jsval + unit) \<times> 'w"
  compressImage :: "File \<Rightarrow> 'w \<Rightarrow> (jsval + File) \<times> 'w"
  uploadFile :: "File \<Rightarrow> 'w \<Rightarrow> (jsval + UploadResult) \<times> 'w"
  uploadJSON :: "json \<Rightarrow> 'w \<Rightarrow> (jsval + UploadResult) \<times> 'w"
  extractCid :: "jsstring option \<Rightarrow> jsval + jsstring"
  toHttps :: "jsstring \<Rightarrow> jsval + jsstring"
  toIpfsUri :: "jsstring \<Rightarrow> jsval + jsstring"
  sha256HexOfFile :: "File \<Rightarrow> 'w \<Rightarrow> (jsval + jsstring) \<times> 'w"
  keccakOfJson :: "json \<Rightarrow> 'w \<Rightarrow> (jsval + jsstring) \<times> 'w"
  getClient :: "'w \<Rightarrow> (jsval + unit) \<times> 'w"
  mintAndRegisterIp :: "MintRequest \<Rightarrow> 'w \<Rightarrow> (jsval + MintResult) \<times> 'w"

datatype call =
  SwitchChainAsync | CompressImage | UploadFile | UploadJSON | ExtractCid | ToHttps
  | ToIpfsUri | Sha256HexOfFile | KeccakOfJson | GetClient | MintAndRegisterIp

section \<open>The hook's state and its steps\<close>

text \<open>
  \<open>registerState\<close> is the React state. \<open>updates\<close> records every value given to it by
  \<open>setRegisterState\<close>, oldest first, and \<open>calls\<close> every collaborator invoked, with
  whether it returned (\<open>True\<close>) or threw: both are observation logs only.
\<close>

record 'w hook =
  registerState :: RegisterState
  updates :: "RegisterState list"
  calls :: "(call \<times> bool) list"
  world :: 'w

type_synonym ('w, 'a) step = "'w hook \<Rightarrow> (jsval + 'a) \<times> 'w hook"

fun returned :: "jsval + 'a \<Rightarrow> bool" where
  "returned (Inl e) = False"
| "returned (Inr a) = True"

definition start :: "RegisterState \<Rightarrow> 'w \<Rightarrow> 'w hook" where
  "start st w = \<lparr>registerState = st, updates = [], calls = [], world = w\<rparr>"

definition return :: "'a \<Rightarrow> ('w, 'a) step" where
  "return a s = (Inr a, s)"

definition throw :: "jsval \<Rightarrow> ('w, 'a) step" where
  "throw e s = (Inl e, s)"

text \<open>Sequencing: the rest of a block runs only when the statement before it did not throw.\<close>

definition andThen :: "('w, 'a) step \<Rightarrow> ('a \<Rightarrow> ('w, 'b) step) \<Rightarrow> ('w, 'b) step" where
  "andThen m k s = (case m s of (Inl e, s') \<Rightarrow> (Inl e, s') | (Inr a, s') \<Rightarrow> k a s')"

text \<open>\<open>try { m } catch (e) { h e }\<close>.\<close>

definition tryCatch :: "('w, 'a) step \<Rightarrow> (jsval \<Rightarrow> ('w, 'a) step) \<Rightarrow> ('w, 'a) step" where
  "tryCatch m h s = (case m s of (Inl e, s') \<Rightarrow> h e s' | (Inr a, s') \<Rightarrow> (Inr a, s'))"

definition external :: "call \<Rightarrow> ('w \<Rightarrow> (jsval + 'a) \<times> 'w) \<Rightarrow> ('w, 'a) step" where
  "external c f s =
     (case f (world s) of
        (r, w') \<Rightarrow> (r, s\<lparr>world := w', calls := calls s @ [(c, returned r)]\<rparr>))"

definition helper :: "call \<Rightarrow> jsval + 'a \<Rightarrow> ('w, 'a) step" where
  "helper c r s = (r, s\<lparr>calls := calls s @ [(c, returned r)]\<rparr>)"

definition setRegisterState :: "(RegisterState \<Rightarrow> RegisterState) \<Rightarrow> ('w, unit) step" where
  "setRegisterState f s =
     (Inr (), s\<lparr>registerState := f (registerState s),
                updates := updates s @ [f (registerState s)]\<rparr>)"

text \<open>
  \<open>v.message\<close> without optional chaining, as the inner handler reads it: a TypeError
  on \<open>null\<close> and \<open>undefined\<close> (the wording is the engine's).
\<close>

fun read_message :: "jsval \<Rightarrow> ('w, jsstring option) step" where
  "read_message Undefined =
     throw (TypeError (lit (''Cannot read properties of undefined (reading '' @ [CHR 0x27] @
        ''message'' @ [CHR 0x27] @ '')'')))"
| "read_message Null =
     throw (TypeError (lit (''Cannot read properties of null (reading '' @ [CHR 0x27] @
        ''message'' @ [CHR 0x27] @ '')'')))"
| "read_message (Str s) = return None"
| "read_message (Obj m t) = return m"

section \<open>The hook\<close>

text \<open>The initial state of \<open>useState\<close> (lines 30-34).\<close>

definition initialState :: RegisterState where
  "initialState = \<lparr>status = Idle, progress = 0, error = Null, ipId = None, txHash = None\<rparr>"

text \<open>\<open>ensureAeneid\<close> (lines 36-44).\<close>

definition ensureAeneid :: "'w env \<Rightarrow> ('w, unit) step" where
  "ensureAeneid env =
     (if chainId env \<noteq> 1315
      then tryCatch (external SwitchChainAsync (switchChainAsync env 1315))
             (\<lambda>error. throw (new_Error (lit ''Failed to switch to Aeneid network'')))
      else return ())"

text \<open>The local constants of \<open>executeRegister\<close> that are still used after line 135.\<close>

record locals =
  imageCid :: jsstring
  imageGateway :: jsstring
  ipMetaCid :: jsstring
  nftMetaCid :: jsstring
  metadata :: MintMetadata

definition em_dash :: jsstring where
  "em_dash = [0x2014]"

definition bullet :: jsstring where
  "bullet = [0x2022]"

definition newline :: jsstring where
  "newline = [0x0A]"

text \<open>The IP metadata object (lines 88-102) and the NFT metadata object (lines 117-123).\<close>

definition make_ipMetadata :: "'w env \<Rightarrow> RegisterIntent \<Rightarrow> File \<Rightarrow> jsstring \<Rightarrow> jsstring \<Rightarrow> IpMetadata" where
  "make_ipMetadata env intent compressedFile gateway hash =
     \<lparr>ip_title = or_else (title intent) (file_name compressedFile),
      ip_description = or_else (prompt intent) [],
      ip_image = gateway,
      imageHash = hash,
      mediaUrl = gateway,
      mediaHash = hash,
      mediaType = or_else (Some (file_type compressedFile)) (lit ''image/webp''),
      creators =
        (case address env of
           Some a \<Rightarrow>
             (if a \<noteq> [] then [\<lparr>creator_name = a, creator_address = a, contributionPercent = 100\<rparr>]
              else [])
         | None \<Rightarrow> []),
      aiMetadata =
        (case prompt intent of
           Some p \<Rightarrow>
             (if p \<noteq> [] then Some \<lparr>ai_prompt = p, generator = lit ''user'', model = lit ''rule-based''\<rparr>
              else None)
         | None \<Rightarrow> None)\<rparr>"

definition make_nftMetadata :: "IpMetadata \<Rightarrow> jsstring \<Rightarrow> jsstring \<Rightarrow> NftMetadata" where
  "make_nftMetadata ipMeta gateway uri =
     \<lparr>nft_name = lit ''IP Ownership '' @ em_dash @ lit '' '' @ ip_title ipMeta,
      nft_description = lit ''Ownership NFT for IP Asset'',
      nft_image = gateway,
      nft_ipMetadataURI = uri,
      attributes = [\<lparr>trait_type = lit ''ip_metadata_uri'', trait_value = uri\<rparr>]\<rparr>"

text \<open>
  Lines 47-135 of \<open>executeRegister\<close>: the network check, the five stage updates and the
  work between them. The \<open>console\<close> output is left out.
\<close>

definition executeRegister_stages :: "'w env \<Rightarrow> RegisterIntent \<Rightarrow> File \<Rightarrow> ('w, locals) step" where
  "executeRegister_stages env intent file =
     andThen (ensureAeneid env) (\<lambda>_.
     andThen (setRegisterState (\<lambda>_.
        \<lparr>status = Compressing, progress = 10, error = Null, ipId = None, txHash = None\<rparr>)) (\<lambda>_.
     andThen (external CompressImage (compressImage env file)) (\<lambda>compressedFile.
     andThen (setRegisterState (\<lambda>prev. prev\<lparr>status := UploadingImage, progress := 25\<rparr>)) (\<lambda>_.
     andThen (external UploadFile (uploadFile env compressedFile)) (\<lambda>imageUpload.
     andThen (helper ExtractCid (extractCid env (or_opt (cid imageUpload) (url imageUpload)))) (\<lambda>imageCid'.
     andThen (helper ToHttps (toHttps env imageCid')) (\<lambda>imageGateway'.
     andThen (external Sha256HexOfFile (sha256HexOfFile env compressedFile)) (\<lambda>imageHash'.
     andThen (setRegisterState (\<lambda>prev. prev\<lparr>status := CreatingMetadata, progress := 50\<rparr>)) (\<lambda>_.
     andThen (external UploadJSON (uploadJSON env
        (IpJson (make_ipMetadata env intent compressedFile imageGateway' imageHash')))) (\<lambda>ipMetaUpload.
     andThen (helper ExtractCid (extractCid env (or_opt (cid ipMetaUpload) (url ipMetaUpload)))) (\<lambda>ipMetaCid'.
     andThen (helper ToIpfsUri (toIpfsUri env ipMetaCid')) (\<lambda>ipMetadataURI'.
     andThen (external KeccakOfJson (keccakOfJson env
        (IpJson (make_ipMetadata env intent compressedFile imageGateway' imageHash')))) (\<lambda>ipMetadataHash'.
     andThen (setRegisterState (\<lambda>prev. prev\<lparr>status := UploadingMetadata, progress := 60\<rparr>)) (\<lambda>_.
     andThen (external UploadJSON (uploadJSON env
        (NftJson (make_nftMetadata
           (make_ipMetadata env intent compressedFile imageGateway' imageHash')
           imageGateway' ipMetadataURI')))) (\<lambda>nftMetaUpload.
     andThen (helper ExtractCid (extractCid env (or_opt (cid nftMetaUpload) (url nftMetaUpload)))) (\<lambda>nftMetaCid'.
     andThen (helper ToIpfsUri (toIpfsUri env nftMetaCid')) (\<lambda>nftMetadataURI'.
     andThen (external KeccakOfJson (keccakOfJson env
        (NftJson (make_nftMetadata
           (make_ipMetadata env intent compressedFile imageGateway' imageHash')
           imageGateway' ipMetadataURI')))) (\<lambda>nftMetadataHash'.
     andThen (setRegisterState (\<lambda>prev. prev\<lparr>status := Minting, progress := 75\<rparr>)) (\<lambda>_.
     return
       \<lparr>imageCid = imageCid', imageGateway = imageGateway', ipMetaCid = ipMetaCid',
        nftMetaCid = nftMetaCid',
        metadata =
          \<lparr>ipMetadataURI = ipMetadataURI', ipMetadataHash = ipMetadataHash',
           nftMetadataURI = nftMetadataURI', nftMetadataHash = nftMetadataHash'\<rparr>\<rparr>)))))))))))))))))))"

text \<open>The four format checks before the contract call (lines 144-156), in the source's order.\<close>

definition executeRegister_validate :: "MintMetadata \<Rightarrow> ('w, unit) step" where
  "executeRegister_validate m =
     (if \<not> startsWith (ipMetadataURI m) (lit ''ipfs://'')
      then throw (new_Error (lit ''Invalid IP metadata URI format''))
      else if \<not> startsWith (nftMetadataURI m) (lit ''ipfs://'')
      then throw (new_Error (lit ''Invalid NFT metadata URI format''))
      else if \<not> startsWith (ipMetadataHash m) (lit ''0x'') \<or> length (ipMetadataHash m) \<noteq> 66
      then throw (new_Error (lit ''Invalid IP metadata hash format''))
      else if \<not> startsWith (nftMetadataHash m) (lit ''0x'') \<or> length (nftMetadataHash m) \<noteq> 66
      then throw (new_Error (lit ''Invalid NFT metadata hash format''))
      else return ())"

text \<open>The message built at lines 202-210.\<close>

definition reverted_message :: "jsstring \<Rightarrow> jsstring \<Rightarrow> jsstring" where
  "reverted_message spg original =
     lit ''Contract execution failed. This could be due to:'' @ newline @
     bullet @ lit '' Invalid metadata format'' @ newline @
     bullet @ lit '' Insufficient gas'' @ newline @
     bullet @ lit '' Wrong SPG collection address'' @ newline @
     bullet @ lit '' Network issues'' @ newline @ newline @
     lit ''Using SPG: '' @ spg @ newline @
     lit ''Original error: '' @ original"

text \<open>
  The inner \<open>try\<close>/\<open>catch\<close> statement (lines 160-214). Its value is how the statement
  completes when it does not throw: \<open>Some r\<close> for \<open>return r\<close>, \<open>None\<close> for running off
  its end into the statements that follow it.
\<close>

definition mint_request :: "'w env \<Rightarrow> locals \<Rightarrow> MintRequest" where
  "mint_request env l =
     \<lparr>spgNftContract = SPG_COLLECTION_ADDRESS env, recipient = address env,
      ipMetadata = metadata l, allowDuplicates = True\<rparr>"

definition executeRegister_mint :: "'w env \<Rightarrow> locals \<Rightarrow> ('w, RegisterResult option) step" where
  "executeRegister_mint env l =
     tryCatch
       (andThen (external MintAndRegisterIp (mintAndRegisterIp env (mint_request env l))) (\<lambda>result.
        andThen (setRegisterState (\<lambda>_.
           \<lparr>status = Success, progress = 100, error = Null,
            ipId = result_ipId result, txHash = result_txHash result\<rparr>)) (\<lambda>_.
        andThen (helper ToHttps (toHttps env (ipMetaCid l))) (\<lambda>ipMetadataUrl.
        andThen (helper ToHttps (toHttps env (nftMetaCid l))) (\<lambda>nftMetadataUrl.
        return (Some (Registered (result_ipId result) (result_txHash result)
                        (imageGateway l) ipMetadataUrl nftMetadataUrl)))))))
       (\<lambda>contractError.
        andThen (read_message contractError) (\<lambda>message.
        case message of
          Some m \<Rightarrow>
            (if js_includes m (lit ''execution reverted'')
             then throw (new_Error (reverted_message (SPG_COLLECTION_ADDRESS env) m))
             else throw contractError)
        | None \<Rightarrow> throw contractError))"

text \<open>
  The statements after the inner \<open>try\<close>/\<open>catch\<close> (lines 216-231). They name \<open>result\<close>,
  which is declared inside the \<open>try\<close> block only, so evaluating the argument of
  \<open>setRegisterState\<close> would raise a ReferenceError before anything else happens.
\<close>

definition executeRegister_after :: "('w, RegisterResult) step" where
  "executeRegister_after = throw (ReferenceError (lit ''result is not defined''))"

text \<open>
  Lines 47-158: the stages, the format checks and \<open>getClient\<close>, up to the inner
  \<open>try\<close>.
\<close>

definition executeRegister_prepare :: "'w env \<Rightarrow> RegisterIntent \<Rightarrow> File \<Rightarrow> ('w, locals) step" where
  "executeRegister_prepare env intent file =
     andThen (executeRegister_stages env intent file) (\<lambda>l.
     andThen (executeRegister_validate (metadata l)) (\<lambda>_.
     andThen (external GetClient (getClient env)) (\<lambda>client.
     return l)))"

text \<open>The body of the outer \<open>try\<close> (lines 47-231).\<close>

definition executeRegister_try :: "'w env \<Rightarrow> RegisterIntent \<Rightarrow> File \<Rightarrow> ('w, RegisterResult) step" where
  "executeRegister_try env intent file =
     andThen (executeRegister_prepare env intent file) (\<lambda>l.
     andThen (executeRegister_mint env l) (\<lambda>completion.
     case completion of
       Some r \<Rightarrow> return r
     | None \<Rightarrow> executeRegister_after))"

text \<open>\<open>executeRegister\<close> (lines 46-245): the outer \<open>try\<close> with its handler (lines 233-244).\<close>

definition executeRegister :: "'w env \<Rightarrow> RegisterIntent \<Rightarrow> File \<Rightarrow> ('w, RegisterResult) step" where
  "executeRegister env intent file =
     tryCatch (executeRegister_try env intent file)
       (\<lambda>error'.
        andThen (setRegisterState (\<lambda>prev. prev\<lparr>status := Error, error := error'\<rparr>)) (\<lambda>_.
        return (Failed (error_text error'))))"

text \<open>\<open>resetRegister\<close> (lines 247-253).\<close>

definition resetRegister :: "('w, unit) step" where
  "resetRegister =
     setRegisterState (\<lambda>_. \<lparr>status = Idle, progress = 0, error = Null, ipId = None, txHash = None\<rparr>)"

section \<open>Concrete collaborators\<close>

text \<open>
  A file, the intent \<open>{title: "Cat", prompt: ""}\<close> and collaborators that all succeed,
  on a world without content; the other environments change one collaborator each.
\<close>

definition file_cat :: File where
  "file_cat = \<lparr>file_name = lit ''cat.png'', file_type = lit ''image/png'', file_data = [137, 80, 78, 71]\<rparr>"

definition intent_cat :: RegisterIntent where
  "intent_cat = \<lparr>title = Some (lit ''Cat''), prompt = Some []\<rparr>"

definition env_ok :: "unit env" where
  "env_ok =
     \<lparr>address = Some (lit ''0x1111111111111111111111111111111111111111''),
      chainId = 1315,
      SPG_COLLECTION_ADDRESS = lit ''0xc32A8a0FF3beDDDa58393d022aF433e78739FAbc'',
      switchChainAsync = (\<lambda>c w. (Inr (), w)),
      compressImage = (\<lambda>f w. (Inr (f\<lparr>file_type := lit ''image/webp''\<rparr>), w)),
      uploadFile = (\<lambda>f w. (Inr \<lparr>cid = Some (lit ''bafyimage''), url = None\<rparr>, w)),
      uploadJSON = (\<lambda>j w.
        (Inr \<lparr>cid = None, url = Some (case j of IpJson x \<Rightarrow> lit ''bafyip'' | NftJson x \<Rightarrow> lit ''bafynft'')\<rparr>, w)),
      extractCid = (\<lambda>x. case x of Some c \<Rightarrow> Inr c | None \<Rightarrow> Inl (new_Error (lit ''Missing CID''))),
      toHttps = (\<lambda>c. Inr (lit ''https://ipfs.io/ipfs/'' @ c)),
      toIpfsUri = (\<lambda>c. Inr (lit ''ipfs://'' @ c)),
      sha256HexOfFile = (\<lambda>f w.
        (Inr (lit ''9f86d081884c7d659a2feaa0c55ad015a3bf4f1b2b0b822cd15d6c15b0f00a08''), w)),
      keccakOfJson = (\<lambda>j w.
        (Inr (lit ''0x3a1f0c5b7e9d2468ace013579bdf02468ace13579bdf0246811223344556677f''), w)),
      getClient = (\<lambda>w. (Inr (), w)),
      mintAndRegisterIp = (\<lambda>req w. (Inr (MintResult (Some (lit ''0xABC'')) (Some (lit ''0xDEF''))), w))\<rparr>"


definition env_switched :: "unit env" where
  "env_switched = env_ok\<lparr>chainId := 1\<rparr>"

definition env_short_hash :: "unit env" where
  "env_short_hash = env_ok\<lparr>keccakOfJson := (\<lambda>j w. (Inr (lit ''0x1234''), w))\<rparr>"

definition env_compress_fails :: "unit env" where
  "env_compress_fails =
     env_ok\<lparr>compressImage := (\<lambda>f w. (Inl (new_Error (lit ''Canvas is empty'')), w))\<rparr>"

definition env_null_reject :: "unit env" where
  "env_null_reject = env_ok\<lparr>compressImage := (\<lambda>f w. (Inl Null, w))\<rparr>"

definition env_http_uri :: "unit env" where
  "env_http_uri = env_ok\<lparr>toIpfsUri := (\<lambda>c. Inr (lit ''https://gateway.pinata.cloud/ipfs/'' @ c))\<rparr>"





definition env_switch_rejected :: "unit env" where
  "env_switch_rejected =
     env_ok\<lparr>chainId := 1,
            switchChainAsync := (\<lambda>c w.
              (Inl (Obj (Some (lit ''User rejected the request.''))
                        (lit ''UserRejectedRequestError: User rejected the request.'')), w))\<rparr>"

definition env_upload_fails :: "unit env" where
  "env_upload_fails =
     env_ok\<lparr>uploadJSON := (\<lambda>j w.
       case j of
         IpJson x \<Rightarrow> (Inr \<lparr>cid = None, url = Some (lit ''bafyip'')\<rparr>, w)
       | NftJson x \<Rightarrow> (Inl (Str (lit ''Gateway timeout'')), w))\<rparr>"

section \<open>Auxiliary definitions for the proofs\<close>

text \<open>
  The five stage updates of a run that reaches the contract call, the collaborators it has
  invoked by then, and the four messages of the format checks.
\<close>

definition stage_updates :: "RegisterState list" where
  "stage_updates =
     [\<lparr>status = Compressing, progress = 10, error = Null, ipId = None, txHash = None\<rparr>,
      \<lparr>status = UploadingImage, progress = 25, error = Null, ipId = None, txHash = None\<rparr>,
      \<lparr>status = CreatingMetadata, progress = 50, error = Null, ipId = None, txHash = None\<rparr>,
      \<lparr>status = UploadingMetadata, progress = 60, error = Null, ipId = None, txHash = None\<rparr>,
      \<lparr>status = Minting, progress = 75, error = Null, ipId = None, txHash = None\<rparr>]"

definition stage_calls :: "'w env \<Rightarrow> (call \<times> bool) list" where
  "stage_calls env =
     (if chainId env \<noteq> 1315 then [(SwitchChainAsync, True)] else []) @
     [(CompressImage, True), (UploadFile, True), (ExtractCid, True), (ToHttps, True),
      (Sha256HexOfFile, True), (UploadJSON, True), (ExtractCid, True), (ToIpfsUri, True),
      (KeccakOfJson, True), (UploadJSON, True), (ExtractCid, True), (ToIpfsUri, True),
      (KeccakOfJson, True)]"

definition format_errors :: "jsstring set" where
  "format_errors =
     {lit ''Invalid IP metadata URI format'', lit ''Invalid NFT metadata URI format'',
      (lit ''Invalid IP metadata hash format''), lit ''Invalid NFT metadata hash format''}"

text \<open>
  \<open>synced st\<close>: the React state is the last value given to \<open>setRegisterState\<close>, or
  \<open>st\<close> when there was none yet. \<open>keeps I m\<close>: the step \<open>m\<close> preserves \<open>I\<close>, however it ends.
\<close>

definition synced :: "RegisterState \<Rightarrow> 'w hook \<Rightarrow> bool" where
  "synced st s = (registerState s = last (st # updates s))"

definition keeps :: "('w hook \<Rightarrow> bool) \<Rightarrow> ('w, 'a) step \<Rightarrow> bool" where
  "keeps I m = (\<forall>s r s'. I s \<longrightarrow> m s = (r, s') \<longrightarrow> I s')"

text \<open>The local constants of a run with \<open>env_ok\<close>, and with the \<open>https\<close> URIs of \<open>env_http_uri\<close>.\<close>

definition locals_cat :: locals where
  "locals_cat =
     \<lparr>imageCid = lit ''bafyimage'', imageGateway = lit ''https://ipfs.io/ipfs/bafyimage'',
      ipMetaCid = lit ''bafyip'', nftMetaCid = lit ''bafynft'',
      metadata =
        \<lparr>ipMetadataURI = lit ''ipfs://bafyip'',
         ipMetadataHash = lit ''0x3a1f0c5b7e9d2468ace013579bdf02468ace13579bdf0246811223344556677f'',
         nftMetadataURI = lit ''ipfs://bafynft'',
         nftMetadataHash = lit ''0x3a1f0c5b7e9d2468ace013579bdf02468ace13579bdf0246811223344556677f''\<rparr>\<rparr>"

definition locals_http :: locals where
  "locals_http =
     locals_cat\<lparr>metadata :=
        \<lparr>ipMetadataURI = lit ''https://gateway.pinata.cloud/ipfs/bafyip'',
         ipMetadataHash = lit ''0x3a1f0c5b7e9d2468ace013579bdf02468ace13579bdf0246811223344556677f'',
         nftMetadataURI = lit ''https://gateway.pinata.cloud/ipfs/bafynft'',
         nftMetadataHash = lit ''0x3a1f0c5b7e9d2468ace013579bdf02468ace13579bdf0246811223344556677f''\<rparr>\<rparr>"

section \<open>Strings of literals\<close>

text \<open>\<open>lit\<close> is injective and commutes with the list operations, so that tests on literals are
  decided on their characters.\<close>

lemma unat_of_char: "unat (of_char c :: 16 word) = of_char c"
proof -
  have "(of_char c :: nat) < 256"
    by (metis of_char_mod_256 mod_less_divisor zero_less_numeral)
  also have "(256 :: nat) < 2 ^ 16" by simp
  finally have "(of_char c :: nat) < 2 ^ 16" .
  then have "unat (of_nat (of_char c) :: 16 word) = of_char c"
    by (simp add: unat_of_nat)
  then show ?thesis by (simp add: of_nat_of_char)
qed

lemma inj_of_char_word: "inj (of_char :: char \<Rightarrow> 16 word)"
proof (rule injI)
  fix a b :: char
  assume "(of_char a :: 16 word) = of_char b"
  then have "unat (of_char a :: 16 word) = unat (of_char b :: 16 word)" by simp
  then have "(of_char a :: nat) = of_char b" by (simp add: unat_of_char)
  then show "a = b" by simp
qed

lemma lit_eq_iff [simp]: "lit s = lit t \<longleftrightarrow> s = t"
  by (simp add: lit_def inj_map_eq_map [OF inj_of_char_word])

lemma lit_Nil [simp]: "lit [] = []" "lit s = [] \<longleftrightarrow> s = []" "[] = lit s \<longleftrightarrow> s = []"
  by (auto simp: lit_def)

lemma length_lit [simp]: "length (lit s) = length s"
  by (simp add: lit_def)

lemma take_lit [simp]: "take n (lit s) = lit (take n s)"
  by (simp add: lit_def take_map)

lemma lit_append [simp]: "lit a @ lit b = lit (a @ b)" "lit a @ lit b @ x = lit (a @ b) @ x"
  by (simp_all add: lit_def)

lemma sublist_lit [simp]: "sublist (lit a) (lit b) \<longleftrightarrow> sublist a b"
proof
  assume "sublist (lit a) (lit b)"
  then obtain a' where "sublist a' b" and "map (of_char :: char \<Rightarrow> 16 word) a = map of_char a'"
    unfolding lit_def by (blast dest: sublist_map_rightE)
  then show "sublist a b"
    by (simp add: inj_map_eq_map [OF inj_of_char_word])
next
  assume "sublist a b"
  then show "sublist (lit a) (lit b)"
    unfolding lit_def by (rule map_mono_sublist)
qed

section \<open>Reasoning about steps\<close>

lemma start_simps [simp]:
  "registerState (start st w) = st" "updates (start st w) = []"
  "calls (start st w) = []" "world (start st w) = w"
  by (simp_all add: start_def)

lemma andThen_InrE:
  assumes "andThen m k s = (Inr b, s')"
  obtains a s1 where "m s = (Inr a, s1)" and "k a s1 = (Inr b, s')"
  using assms by (auto simp: andThen_def split: prod.splits sum.splits)

lemma external_InrD:
  "external c f s = (Inr a, s') \<Longrightarrow>
     updates s' = updates s \<and> registerState s' = registerState s \<and>
     calls s' = calls s @ [(c, True)] \<and> f (world s) = (Inr a, world s')"
  by (auto simp: external_def split: prod.splits)

lemma helper_InrD:
  "helper c x s = (Inr a, s') \<Longrightarrow>
     updates s' = updates s \<and> registerState s' = registerState s \<and>
     calls s' = calls s @ [(c, True)] \<and> x = Inr a \<and> world s' = world s"
  by (auto simp: helper_def)

lemma setRegisterState_D:
  "setRegisterState f s = (r, s') \<Longrightarrow>
     updates s' = updates s @ [f (registerState s)] \<and> registerState s' = f (registerState s) \<and>
     calls s' = calls s \<and> world s' = world s \<and> r = Inr ()"
  by (auto simp: setRegisterState_def)

lemma return_D: "return a s = (r, s') \<Longrightarrow> r = Inr a \<and> s' = s"
  by (auto simp: return_def)

lemma ensureAeneid_InrD:
  "ensureAeneid env s = (Inr u, s') \<Longrightarrow>
     updates s' = updates s \<and> registerState s' = registerState s \<and>
     calls s' = calls s @ (if chainId env \<noteq> 1315 then [(SwitchChainAsync, True)] else [])"
  by (auto simp: ensureAeneid_def tryCatch_def external_def return_def throw_def
           split: if_splits prod.splits sum.splits)

lemma stages_Inr:
  assumes "executeRegister_stages env intent file s = (Inr l, s')"
  shows "updates s' = updates s @ stage_updates \<and>
         registerState s' = \<lparr>status = Minting, progress = 75, error = Null, ipId = None, txHash = None\<rparr> \<and>
         calls s' = calls s @ stage_calls env \<and>
         toHttps env (imageCid l) = Inr (imageGateway l)"
  using assms unfolding executeRegister_stages_def
  apply (elim andThen_InrE)
  apply (drule ensureAeneid_InrD external_InrD helper_InrD setRegisterState_D return_D)+
  apply (simp add: stage_updates_def stage_calls_def)
  done


lemma validate_keeps: "executeRegister_validate m s = (r, s') \<Longrightarrow> s' = s"
  by (auto simp: executeRegister_validate_def throw_def return_def split: if_splits)

lemma validate_Inr:
  "executeRegister_validate m s = (Inr u, s') \<Longrightarrow>
     startsWith (ipMetadataURI m) (lit ''ipfs://'') \<and> startsWith (nftMetadataURI m) (lit ''ipfs://'') \<and>
     startsWith (ipMetadataHash m) (lit ''0x'') \<and> length (ipMetadataHash m) = 66 \<and>
     startsWith (nftMetadataHash m) (lit ''0x'') \<and> length (nftMetadataHash m) = 66"
  by (auto simp: executeRegister_validate_def throw_def return_def split: if_splits)

lemma validate_fails:
  assumes "\<not> startsWith (ipMetadataURI m) (lit ''ipfs://'') \<or> \<not> startsWith (nftMetadataURI m) (lit ''ipfs://'') \<or>
           \<not> startsWith (ipMetadataHash m) (lit ''0x'') \<or> length (ipMetadataHash m) \<noteq> 66 \<or>
           \<not> startsWith (nftMetadataHash m) (lit ''0x'') \<or> length (nftMetadataHash m) \<noteq> 66"
  shows "\<exists>msg \<in> format_errors. executeRegister_validate m s = (Inl (new_Error msg), s)"
  using assms by (auto simp: executeRegister_validate_def throw_def format_errors_def)

lemma error_text_new_Error: "msg \<noteq> [] \<Longrightarrow> error_text (new_Error msg) = msg"
  by (simp add: error_text_def new_Error_def or_else_def)

lemma handler_eq:
  "andThen (setRegisterState (\<lambda>prev. prev\<lparr>status := Error, error := e\<rparr>))
       (\<lambda>_. return (Failed (error_text e))) s =
     (Inr (Failed (error_text e)),
      s\<lparr>registerState := (registerState s)\<lparr>status := Error, error := e\<rparr>,
        updates := updates s @ [(registerState s)\<lparr>status := Error, error := e\<rparr>]\<rparr>)"
  by (simp add: andThen_def setRegisterState_def return_def)

lemma executeRegister_caught:
  assumes "executeRegister_try env intent file s = (Inl e, s1)"
  shows "executeRegister env intent file s =
     (Inr (Failed (error_text e)),
      s1\<lparr>registerState := (registerState s1)\<lparr>status := Error, error := e\<rparr>,
         updates := updates s1 @ [(registerState s1)\<lparr>status := Error, error := e\<rparr>]\<rparr>)"
  using assms by (simp add: executeRegister_def tryCatch_def handler_eq)

lemma executeRegister_returned:
  assumes "executeRegister_try env intent file s = (Inr r, s1)"
  shows "executeRegister env intent file s = (Inr r, s1)"
  using assms by (simp add: executeRegister_def tryCatch_def)

lemma mint_handler_throws:
  "(andThen (read_message e) (\<lambda>message.
        case message of
          Some m \<Rightarrow>
            (if js_includes m (lit ''execution reverted'')
             then throw (new_Error (reverted_message spg m))
             else throw e)
        | None \<Rightarrow> throw e)) s = (r, s') \<Longrightarrow> \<exists>e'. r = Inl e' \<and> s' = s"
  by (cases e) (auto simp: andThen_def throw_def return_def split: option.splits if_splits)

lemma mint_Inr:
  assumes "executeRegister_mint env l s = (Inr c, s')"
  shows "\<exists>res u2 u3.
           mintAndRegisterIp env (mint_request env l) (world s) = (Inr res, world s') \<and>
           toHttps env (ipMetaCid l) = Inr u2 \<and> toHttps env (nftMetaCid l) = Inr u3 \<and>
           c = Some (Registered (result_ipId res) (result_txHash res) (imageGateway l) u2 u3) \<and>
           registerState s' =
             \<lparr>status = Success, progress = 100, error = Null,
              ipId = result_ipId res, txHash = result_txHash res\<rparr> \<and>
           updates s' = updates s @ [registerState s'] \<and>
           calls s' = calls s @ [(MintAndRegisterIp, True), (ToHttps, True), (ToHttps, True)]"
proof -
  let ?body = "andThen (external MintAndRegisterIp (mintAndRegisterIp env (mint_request env l))) (\<lambda>result.
        andThen (setRegisterState (\<lambda>_.
           \<lparr>status = Success, progress = 100, error = Null,
            ipId = result_ipId result, txHash = result_txHash result\<rparr>)) (\<lambda>_.
        andThen (helper ToHttps (toHttps env (ipMetaCid l))) (\<lambda>ipMetadataUrl.
        andThen (helper ToHttps (toHttps env (nftMetaCid l))) (\<lambda>nftMetadataUrl.
        return (Some (Registered (result_ipId result) (result_txHash result)
                        (imageGateway l) ipMetadataUrl nftMetadataUrl))))))"
  have "?body s = (Inr c, s')"
  proof (cases "?body s")
    case (Pair r s1)
    show ?thesis
    proof (cases r)
      case (Inl e)
      with Pair assms show ?thesis
        by (auto simp: executeRegister_mint_def tryCatch_def dest: mint_handler_throws)
    next
      case (Inr a)
      with Pair assms show ?thesis
        by (simp add: executeRegister_mint_def tryCatch_def)
    qed
  qed
  then show ?thesis
    apply (elim andThen_InrE)
    apply (drule external_InrD helper_InrD setRegisterState_D return_D)+
    apply simp
    done
qed

lemma prepare_Inr:
  assumes "executeRegister_prepare env intent file s = (Inr l, s')"
  shows "updates s' = updates s @ stage_updates \<and>
         calls s' = calls s @ stage_calls env @ [(GetClient, True)] \<and>
         toHttps env (imageCid l) = Inr (imageGateway l) \<and>
         startsWith (ipMetadataURI (metadata l)) (lit ''ipfs://'') \<and>
         startsWith (nftMetadataURI (metadata l)) (lit ''ipfs://'') \<and>
         startsWith (ipMetadataHash (metadata l)) (lit ''0x'') \<and> length (ipMetadataHash (metadata l)) = 66 \<and>
         startsWith (nftMetadataHash (metadata l)) (lit ''0x'') \<and> length (nftMetadataHash (metadata l)) = 66"
  using assms unfolding executeRegister_prepare_def
  apply (elim andThen_InrE)
  apply (frule validate_keeps)
  apply (drule stages_Inr validate_Inr external_InrD return_D)+
  apply simp
  done

lemma try_Inr:
  assumes "executeRegister_try env intent file s = (Inr r, s')"
  shows "\<exists>l s1. executeRegister_prepare env intent file s = (Inr l, s1) \<and>
                 executeRegister_mint env l s1 = (Inr (Some r), s')"
  using assms unfolding executeRegister_try_def
  apply (elim andThen_InrE)
  apply (auto simp: return_def executeRegister_after_def throw_def split: option.splits)
  done

lemma executeRegister_success:
  assumes "executeRegister env intent file s = (Inr r, s')" and "success r"
  shows "executeRegister_try env intent file s = (Inr r, s')"
proof (cases "executeRegister_try env intent file s")
  case (Pair x s1)
  show ?thesis
  proof (cases x)
    case (Inl e)
    with Pair have "executeRegister env intent file s =
      (Inr (Failed (error_text e)),
       s1\<lparr>registerState := (registerState s1)\<lparr>status := Error, error := e\<rparr>,
          updates := updates s1 @ [(registerState s1)\<lparr>status := Error, error := e\<rparr>]\<rparr>)"
      by (simp add: executeRegister_caught)
    with assms show ?thesis by auto
  next
    case (Inr a)
    with Pair have "executeRegister env intent file s = (Inr a, s1)"
      by (simp add: executeRegister_returned)
    with assms Pair Inr show ?thesis by simp
  qed
qed


lemma validate_passes:
  assumes "startsWith (ipMetadataURI m) (lit ''ipfs://'')"
    and "startsWith (nftMetadataURI m) (lit ''ipfs://'')"
    and "startsWith (ipMetadataHash m) (lit ''0x'')" and "length (ipMetadataHash m) = 66"
    and "startsWith (nftMetadataHash m) (lit ''0x'')" and "length (nftMetadataHash m) = 66"
  shows "executeRegister_validate m s = (Inr (), s)"
  using assms by (simp add: executeRegister_validate_def return_def)

text \<open>
  The length test of lines 151 and 154 counts code units: a hash of \<open>0x\<close>, 63 letters and
  an em dash has length 66 and passes, although its UTF-8 form has 68 bytes.
\<close>

lemma validate_counts_code_units:
  "executeRegister_validate
     \<lparr>ipMetadataURI = lit ''ipfs://bafyip'',
      ipMetadataHash = lit ''0x'' @ replicate 63 0x61 @ em_dash,
      nftMetadataURI = lit ''ipfs://bafynft'',
      nftMetadataHash = lit ''0x'' @ replicate 63 0x61 @ em_dash\<rparr> s = (Inr (), s)"
  by (simp add: executeRegister_validate_def startsWith_def em_dash_def return_def)

lemma external_calls:
  "external c f s = (r, s') \<Longrightarrow> calls s' = calls s @ [(c, returned r)]"
  by (auto simp: external_def split: prod.splits)

lemma mint_Inl:
  assumes "executeRegister_mint env l s = (Inl e, s')"
  shows "\<not> list_all snd (calls s')"
proof -
  let ?body = "andThen (external MintAndRegisterIp (mintAndRegisterIp env (mint_request env l))) (\<lambda>result.
        andThen (setRegisterState (\<lambda>_.
           \<lparr>status = Success, progress = 100, error = Null,
            ipId = result_ipId result, txHash = result_txHash result\<rparr>)) (\<lambda>_.
        andThen (helper ToHttps (toHttps env (ipMetaCid l))) (\<lambda>ipMetadataUrl.
        andThen (helper ToHttps (toHttps env (nftMetaCid l))) (\<lambda>nftMetadataUrl.
        return (Some (Registered (result_ipId result) (result_txHash result)
                        (imageGateway l) ipMetadataUrl nftMetadataUrl))))))"
  obtain r s1 where b: "?body s = (r, s1)" by (cases "?body s")
  show ?thesis
  proof (cases r)
    case (Inr a)
    with b assms show ?thesis
      by (simp add: executeRegister_mint_def tryCatch_def)
  next
    case (Inl e0)
    with b assms have "s' = s1"
      by (auto simp: executeRegister_mint_def tryCatch_def dest: mint_handler_throws)
    moreover from b Inl have "\<not> list_all snd (calls s1)"
      by (auto simp: andThen_def external_def helper_def setRegisterState_def return_def
               split: prod.splits sum.splits)
    ultimately show ?thesis by simp
  qed
qed

section \<open>The state is always the last update\<close>

lemma keepsD: "keeps I m \<Longrightarrow> I s \<Longrightarrow> I (snd (m s))"
  by (cases "m s") (auto simp: keeps_def)

lemma keeps_andThen:
  assumes "keeps I m" and "\<And>a. keeps I (k a)"
  shows "keeps I (andThen m k)"
  unfolding keeps_def
proof (intro allI impI)
  fix s r s'
  assume i: "I s" and run: "andThen m k s = (r, s')"
  obtain x s1 where ms: "m s = (x, s1)" by (cases "m s")
  with assms(1) i have i1: "I s1" by (auto simp: keeps_def)
  show "I s'"
  proof (cases x)
    case (Inl e)
    with ms run i1 show ?thesis by (simp add: andThen_def)
  next
    case (Inr a)
    with ms run have "k a s1 = (r, s')" by (simp add: andThen_def)
    with assms(2) [of a] i1 show ?thesis by (auto simp: keeps_def)
  qed
qed

lemma keeps_tryCatch:
  assumes "keeps I m" and "\<And>e. keeps I (h e)"
  shows "keeps I (tryCatch m h)"
  unfolding keeps_def
proof (intro allI impI)
  fix s r s'
  assume i: "I s" and run: "tryCatch m h s = (r, s')"
  obtain x s1 where ms: "m s = (x, s1)" by (cases "m s")
  with assms(1) i have i1: "I s1" by (auto simp: keeps_def)
  show "I s'"
  proof (cases x)
    case (Inl e)
    with ms run have "h e s1 = (r, s')" by (simp add: tryCatch_def)
    with assms(2) [of e] i1 show ?thesis by (auto simp: keeps_def)
  next
    case (Inr a)
    with ms run i1 show ?thesis by (simp add: tryCatch_def)
  qed
qed

lemma keeps_return: "keeps I (return a)"
  by (simp add: keeps_def return_def)

lemma keeps_throw: "keeps I (throw e)"
  by (simp add: keeps_def throw_def)

lemma keeps_if: "keeps I a \<Longrightarrow> keeps I b \<Longrightarrow> keeps I (if c then a else b)"
  by simp

lemma keeps_case_option:
  "keeps I a \<Longrightarrow> (\<And>y. keeps I (b y)) \<Longrightarrow> keeps I (case x of None \<Rightarrow> a | Some y \<Rightarrow> b y)"
  by (cases x) simp_all

lemma keeps_read_message: "keeps I (read_message v)"
  by (cases v) (simp_all add: keeps_return keeps_throw)

lemma keeps_validate: "keeps I (executeRegister_validate m)"
  by (auto simp: keeps_def dest: validate_keeps)

lemma synced_external: "keeps (synced st) (external c f)"
  by (auto simp: keeps_def synced_def external_def split: prod.splits)

lemma synced_helper: "keeps (synced st) (helper c x)"
  by (auto simp: keeps_def synced_def helper_def)

lemma synced_setRegisterState: "keeps (synced st) (setRegisterState f)"
  by (auto simp: keeps_def synced_def setRegisterState_def)



lemma synced_ensureAeneid: "keeps (synced st) (ensureAeneid env)"
  unfolding ensureAeneid_def
  by (intro keeps_if keeps_tryCatch keeps_throw keeps_return synced_external)

lemma synced_stages: "keeps (synced st) (executeRegister_stages env intent file)"
  unfolding executeRegister_stages_def
  by (intro keeps_andThen keeps_return synced_ensureAeneid synced_external synced_helper
        synced_setRegisterState)

lemma synced_mint: "keeps (synced st) (executeRegister_mint env l)"
  unfolding executeRegister_mint_def
  by (intro keeps_andThen keeps_tryCatch keeps_case_option keeps_if keeps_return keeps_throw
        keeps_read_message synced_external synced_helper synced_setRegisterState)

lemma synced_try: "keeps (synced st) (executeRegister_try env intent file)"
  unfolding executeRegister_try_def executeRegister_prepare_def executeRegister_after_def
  by (intro keeps_andThen keeps_case_option keeps_return keeps_throw keeps_validate
        synced_stages synced_mint synced_external)

lemma synced_start: "synced st (start st w)"
  by (simp add: synced_def)


text \<open>The definitions that a concrete run unfolds to.\<close>

lemmas run_defs =
  executeRegister_def executeRegister_try_def executeRegister_prepare_def
  executeRegister_stages_def executeRegister_validate_def executeRegister_mint_def
  executeRegister_after_def ensureAeneid_def mint_request_def
  andThen_def tryCatch_def external_def helper_def setRegisterState_def return_def throw_def
  start_def initialState_def make_ipMetadata_def make_nftMetadata_def
  or_else_def or_opt_def startsWith_def error_text_def new_Error_def
  intent_cat_def file_cat_def env_ok_def locals_cat_def locals_http_def

section \<open>The claims\<close>

text \<open>
  Claim C1, as amended. For every run of \<open>executeRegister\<close> in which every external
  call succeeds and the four format checks of lines 145-156 pass on the run's metadata
  values \<open>l\<close>, the values given to \<open>setRegisterState\<close> carry the progress values
  10, 25, 50, 60, 75, 100 in that order and the status tags compressing, uploading-image,
  creating-metadata, uploading-metadata, minting, success in that order, the final
  status is success, and the run returns \<open>success: true\<close>.
\<close>

theorem C1_progress_of_successful_run:
  assumes "list_all snd (calls (snd (executeRegister env intent file (start st w))))"
    and "fst (executeRegister_stages env intent file (start st w)) = Inr l"
    and "startsWith (ipMetadataURI (metadata l)) (lit ''ipfs://'')"
    and "startsWith (nftMetadataURI (metadata l)) (lit ''ipfs://'')"
    and "startsWith (ipMetadataHash (metadata l)) (lit ''0x'')"
    and "length (ipMetadataHash (metadata l)) = 66"
    and "startsWith (nftMetadataHash (metadata l)) (lit ''0x'')"
    and "length (nftMetadataHash (metadata l)) = 66"
  shows "map progress (updates (snd (executeRegister env intent file (start st w)))) =
           [10, 25, 50, 60, 75, 100] \<and>
         map status (updates (snd (executeRegister env intent file (start st w)))) =
           [Compressing, UploadingImage, CreatingMetadata, UploadingMetadata, Minting, Success] \<and>
         status (registerState (snd (executeRegister env intent file (start st w)))) = Success \<and>
         (\<exists>r. fst (executeRegister env intent file (start st w)) = Inr r \<and> success r)"
proof -
  let ?run = "executeRegister env intent file (start st w)"
  obtain s1 where stages: "executeRegister_stages env intent file (start st w) = (Inr l, s1)"
    using assms(2) by (cases "executeRegister_stages env intent file (start st w)") simp
  have v: "executeRegister_validate (metadata l) s1 = (Inr (), s1)"
    using assms(3-8) by (rule validate_passes)
  obtain rg s2 where g: "external GetClient (getClient env) s1 = (rg, s2)"
    by (cases "external GetClient (getClient env) s1")
  from external_calls [OF g] have cg: "calls s2 = calls s1 @ [(GetClient, returned rg)]" .
  show ?thesis
  proof (cases rg)
    case (Inl e)
    with g have "executeRegister_try env intent file (start st w) = (Inl e, s2)"
      by (simp add: executeRegister_try_def executeRegister_prepare_def andThen_def stages v)
    from executeRegister_caught [OF this] have "calls (snd ?run) = calls s2" by simp
    with cg Inl assms(1) show ?thesis by simp
  next
    case (Inr u)
    with g have p: "executeRegister_prepare env intent file (start st w) = (Inr l, s2)"
      by (simp add: executeRegister_prepare_def andThen_def stages v return_def)
    obtain rm s3 where m: "executeRegister_mint env l s2 = (rm, s3)"
      by (cases "executeRegister_mint env l s2")
    show ?thesis
    proof (cases rm)
      case (Inl e)
      with m have bad: "\<not> list_all snd (calls s3)" by (auto dest: mint_Inl)
      from m Inl have "executeRegister_try env intent file (start st w) = (Inl e, s3)"
        by (simp add: executeRegister_try_def andThen_def p)
      from executeRegister_caught [OF this] have "calls (snd ?run) = calls s3" by simp
      with bad assms(1) show ?thesis by simp
    next
      case (Inr c)
      with m have m': "executeRegister_mint env l s2 = (Inr c, s3)" by simp
      from mint_Inr [OF m'] obtain r where c: "c = Some r" and r: "success r"
        and st': "status (registerState s3) = Success" "progress (registerState s3) = 100"
        and u': "updates s3 = updates s2 @ [registerState s3]"
        by auto
      from m' c have "executeRegister_try env intent file (start st w) = (Inr r, s3)"
        by (simp add: executeRegister_try_def andThen_def p return_def)
      from executeRegister_returned [OF this] have run: "?run = (Inr r, s3)" .
      from prepare_Inr [OF p] have u2: "updates s2 = stage_updates" by simp
      show ?thesis
        using r by (simp add: run u' u2 st' stage_updates_def)
    qed
  qed
qed

theorem C1_successful_run_witness:
  "list_all snd (calls (snd (executeRegister env_ok intent_cat file_cat (start initialState ())))) \<and>
   fst (executeRegister_stages env_ok intent_cat file_cat (start initialState ())) = Inr locals_cat \<and>
   startsWith (ipMetadataURI (metadata locals_cat)) (lit ''ipfs://'') \<and>
   startsWith (nftMetadataURI (metadata locals_cat)) (lit ''ipfs://'') \<and>
   startsWith (ipMetadataHash (metadata locals_cat)) (lit ''0x'') \<and>
   length (ipMetadataHash (metadata locals_cat)) = 66 \<and>
   startsWith (nftMetadataHash (metadata locals_cat)) (lit ''0x'') \<and>
   length (nftMetadataHash (metadata locals_cat)) = 66 \<and>
   map progress (updates (snd (executeRegister env_ok intent_cat file_cat (start initialState ())))) =
     [10, 25, 50, 60, 75, 100] \<and>
   map status (updates (snd (executeRegister env_ok intent_cat file_cat (start initialState ())))) =
     [Compressing, UploadingImage, CreatingMetadata, UploadingMetadata, Minting, Success] \<and>
   status (registerState (snd (executeRegister env_ok intent_cat file_cat (start initialState ())))) = Success \<and>
   (\<exists>r. fst (executeRegister env_ok intent_cat file_cat (start initialState ())) = Inr r \<and> success r)"
proof -
  have a: "list_all snd (calls (snd (executeRegister env_ok intent_cat file_cat (start initialState ()))))"
    by (simp add: run_defs)
  have h: "fst (executeRegister_stages env_ok intent_cat file_cat (start initialState ())) =
     Inr locals_cat"
    by (simp add: run_defs)
  have c1: "startsWith (ipMetadataURI (metadata locals_cat)) (lit ''ipfs://'')"
    and c2: "startsWith (nftMetadataURI (metadata locals_cat)) (lit ''ipfs://'')"
    and c3: "startsWith (ipMetadataHash (metadata locals_cat)) (lit ''0x'')"
    and c4: "length (ipMetadataHash (metadata locals_cat)) = 66"
    and c5: "startsWith (nftMetadataHash (metadata locals_cat)) (lit ''0x'')"
    and c6: "length (nftMetadataHash (metadata locals_cat)) = 66"
    by (simp_all add: locals_cat_def startsWith_def)
  from C1_progress_of_successful_run [OF a h c1 c2 c3 c4 c5 c6] a h c1 c2 c3 c4 c5 c6
  show ?thesis
    by blast
qed

text \<open>
  The claim as written asks only that every external call succeeds. With a
  \<open>keccakOfJson\<close> that returns a hash of six characters every collaborator returns, the
  format check of line 151 throws, and the run ends in status error at progress 75.
\<close>

theorem C1_all_calls_succeed_counterexample:
  "calls (snd (executeRegister env_short_hash intent_cat file_cat (start initialState ()))) =
     [(CompressImage, True), (UploadFile, True), (ExtractCid, True), (ToHttps, True),
      (Sha256HexOfFile, True), (UploadJSON, True), (ExtractCid, True), (ToIpfsUri, True),
      (KeccakOfJson, True), (UploadJSON, True), (ExtractCid, True), (ToIpfsUri, True),
      (KeccakOfJson, True)] \<and>
   fst (executeRegister env_short_hash intent_cat file_cat (start initialState ())) =
     Inr (Failed (lit ''Invalid IP metadata hash format'')) \<and>
   status (registerState (snd (executeRegister env_short_hash intent_cat file_cat (start initialState ())))) = Error \<and>
   map progress (updates (snd (executeRegister env_short_hash intent_cat file_cat (start initialState ())))) =
     [10, 25, 50, 60, 75, 75]"
  by (simp add: run_defs env_short_hash_def)

text \<open>
  Claim C2, as amended. Whenever the body of the outer \<open>try\<close> throws a value \<open>e\<close>,
  \<open>executeRegister\<close> does not throw: it returns \<open>{success: false, error: msg}\<close> where
  \<open>msg\<close> is \<open>e?.message || String(e)\<close>, sets the status to error and stores the thrown
  value itself in the field \<open>error\<close>.
\<close>

theorem C2_errors_are_caught:
  assumes "fst (executeRegister_try env intent file s) = Inl e"
  shows "fst (executeRegister env intent file s) = Inr (Failed (error_text e)) \<and>
         status (registerState (snd (executeRegister env intent file s))) = Error \<and>
         error (registerState (snd (executeRegister env intent file s))) = e"
proof -
  obtain s1 where "executeRegister_try env intent file s = (Inl e, s1)"
    using assms by (cases "executeRegister_try env intent file s") simp
  from executeRegister_caught [OF this] show ?thesis by simp
qed

theorem C2_errors_are_caught_witness:
  "fst (executeRegister_try env_compress_fails intent_cat file_cat (start initialState ())) =
     Inl (new_Error (lit ''Canvas is empty'')) \<and>
   fst (executeRegister env_compress_fails intent_cat file_cat (start initialState ())) =
     Inr (Failed (lit ''Canvas is empty'')) \<and>
   status (registerState (snd (executeRegister env_compress_fails intent_cat file_cat (start initialState ())))) = Error \<and>
   error (registerState (snd (executeRegister env_compress_fails intent_cat file_cat (start initialState ())))) =
     new_Error (lit ''Canvas is empty'')"
proof -
  have h: "fst (executeRegister_try env_compress_fails intent_cat file_cat (start initialState ())) =
     Inl (new_Error (lit ''Canvas is empty''))"
    by (simp add: run_defs env_compress_fails_def)
  from C2_errors_are_caught [OF h] h show ?thesis
    by (simp add: error_text_new_Error)
qed

text \<open>
  The stored value is what was thrown, so it is not always a description: when
  \<open>compressImage\<close> rejects with \<open>null\<close>, the run ends with status error and the field
  \<open>error\<close> still \<open>null\<close>.
\<close>

theorem C2_null_rejection_counterexample:
  "fst (executeRegister_try env_null_reject intent_cat file_cat (start initialState ())) = Inl Null \<and>
   fst (executeRegister env_null_reject intent_cat file_cat (start initialState ())) = Inr (Failed (lit ''null'')) \<and>
   status (registerState (snd (executeRegister env_null_reject intent_cat file_cat (start initialState ())))) = Error \<and>
   error (registerState (snd (executeRegister env_null_reject intent_cat file_cat (start initialState ())))) = Null"
  by (simp add: run_defs env_null_reject_def)

text \<open>
  Claim C3. When a run has computed its four metadata values and the IP or the NFT
  metadata URI does not start with \<open>ipfs://\<close>, or one of the two hashes does not start
  with \<open>0x\<close> or has a length other than 66, \<open>executeRegister\<close> fails with one of the four
  format errors, and neither \<open>getClient\<close> nor \<open>mintAndRegisterIp\<close> is invoked on that run.
\<close>

theorem C3_validation_gate:
  assumes "fst (executeRegister_stages env intent file (start st w)) = Inr l"
    and "\<not> startsWith (ipMetadataURI (metadata l)) (lit ''ipfs://'') \<or>
         \<not> startsWith (nftMetadataURI (metadata l)) (lit ''ipfs://'') \<or>
         \<not> startsWith (ipMetadataHash (metadata l)) (lit ''0x'') \<or>
         length (ipMetadataHash (metadata l)) \<noteq> 66 \<or>
         \<not> startsWith (nftMetadataHash (metadata l)) (lit ''0x'') \<or>
         length (nftMetadataHash (metadata l)) \<noteq> 66"
  shows "fst (executeRegister env intent file (start st w)) \<in>
           {Inr (Failed (lit ''Invalid IP metadata URI format'')),
            Inr (Failed (lit ''Invalid NFT metadata URI format'')),
            Inr (Failed (lit ''Invalid IP metadata hash format'')),
            Inr (Failed (lit ''Invalid NFT metadata hash format''))} \<and>
         status (registerState (snd (executeRegister env intent file (start st w)))) = Error \<and>
         MintAndRegisterIp \<notin> fst ` set (calls (snd (executeRegister env intent file (start st w)))) \<and>
         GetClient \<notin> fst ` set (calls (snd (executeRegister env intent file (start st w))))"
proof -
  obtain s1 where stages: "executeRegister_stages env intent file (start st w) = (Inr l, s1)"
    using assms(1) by (cases "executeRegister_stages env intent file (start st w)") simp
  from validate_fails [OF assms(2)] obtain msg where
    msg: "msg \<in> format_errors" and
    v: "executeRegister_validate (metadata l) s1 = (Inl (new_Error msg), s1)"
    by blast
  have "executeRegister_try env intent file (start st w) = (Inl (new_Error msg), s1)"
    by (simp add: executeRegister_try_def executeRegister_prepare_def andThen_def stages v)
  from executeRegister_caught [OF this]
  have run: "executeRegister env intent file (start st w) =
     (Inr (Failed (error_text (new_Error msg))),
      s1\<lparr>registerState := (registerState s1)\<lparr>status := Error, error := new_Error msg\<rparr>,
         updates := updates s1 @ [(registerState s1)\<lparr>status := Error, error := new_Error msg\<rparr>]\<rparr>)" .
  from msg have shown: "error_text (new_Error msg) = msg"
    by (intro error_text_new_Error) (auto simp: format_errors_def)
  from stages_Inr [OF stages] have c: "calls s1 = stage_calls env" by simp
  show ?thesis
    using msg by (auto simp: run shown c stage_calls_def format_errors_def)
qed

theorem C3_validation_gate_witness:
  "fst (executeRegister_stages env_http_uri intent_cat file_cat (start initialState ())) =
     Inr locals_http \<and>
   \<not> startsWith (ipMetadataURI (metadata locals_http)) (lit ''ipfs://'') \<and>
   fst (executeRegister env_http_uri intent_cat file_cat (start initialState ())) \<in>
     {Inr (Failed (lit ''Invalid IP metadata URI format'')),
      Inr (Failed (lit ''Invalid NFT metadata URI format'')),
      Inr (Failed (lit ''Invalid IP metadata hash format'')),
      Inr (Failed (lit ''Invalid NFT metadata hash format''))} \<and>
   status (registerState (snd (executeRegister env_http_uri intent_cat file_cat (start initialState ())))) = Error \<and>
   MintAndRegisterIp \<notin> fst ` set (calls (snd (executeRegister env_http_uri intent_cat file_cat (start initialState ())))) \<and>
   GetClient \<notin> fst ` set (calls (snd (executeRegister env_http_uri intent_cat file_cat (start initialState ()))))"
proof -
  have h: "fst (executeRegister_stages env_http_uri intent_cat file_cat (start initialState ())) =
     Inr locals_http"
    by (simp add: run_defs env_http_uri_def)
  have b: "\<not> startsWith (ipMetadataURI (metadata locals_http)) (lit ''ipfs://'')"
    by (simp add: locals_http_def locals_cat_def startsWith_def)
  then have "\<not> startsWith (ipMetadataURI (metadata locals_http)) (lit ''ipfs://'') \<or>
         \<not> startsWith (nftMetadataURI (metadata locals_http)) (lit ''ipfs://'') \<or>
         \<not> startsWith (ipMetadataHash (metadata locals_http)) (lit ''0x'') \<or>
         length (ipMetadataHash (metadata locals_http)) \<noteq> 66 \<or>
         \<not> startsWith (nftMetadataHash (metadata locals_http)) (lit ''0x'') \<or>
         length (nftMetadataHash (metadata locals_http)) \<noteq> 66"
    by blast
  from C3_validation_gate [OF h this] h b show ?thesis
    by blast
qed




text \<open>
  Claim C5. From any state \<open>resetRegister\<close> yields exactly
  \<open>{status: "idle", progress: 0, error: null}\<close> with no \<open>ipId\<close> and no \<open>txHash\<close>, a second
  call leaves that state as it is, and nothing but the state is touched.
\<close>

theorem C5_reset:
  "fst (resetRegister s) = Inr () \<and>
   registerState (snd (resetRegister s)) =
     \<lparr>status = Idle, progress = 0, error = Null, ipId = None, txHash = None\<rparr> \<and>
   registerState (snd (resetRegister (snd (resetRegister s)))) = registerState (snd (resetRegister s)) \<and>
   calls (snd (resetRegister s)) = calls s \<and> world (snd (resetRegister s)) = world s"
  by (simp add: resetRegister_def setRegisterState_def)

text \<open>
  Claim C6. When the chain id is not 1315 and \<open>switchChainAsync\<close> rejects,
  \<open>executeRegister\<close> fails with the error \<open>Failed to switch to Aeneid network\<close>; the
  rejected switch is the only collaborator invoked and the only state update is the one
  to status error, so no later stage takes place.
\<close>

theorem C6_network_switch_failure:
  assumes "chainId env \<noteq> 1315" and "fst (switchChainAsync env 1315 w) = Inl e"
  shows "fst (executeRegister env intent file (start st w)) =
           Inr (Failed (lit ''Failed to switch to Aeneid network'')) \<and>
         calls (snd (executeRegister env intent file (start st w))) = [(SwitchChainAsync, False)] \<and>
         updates (snd (executeRegister env intent file (start st w))) =
           [st\<lparr>status := Error, error := new_Error (lit ''Failed to switch to Aeneid network'')\<rparr>] \<and>
         registerState (snd (executeRegister env intent file (start st w))) =
           st\<lparr>status := Error, error := new_Error (lit ''Failed to switch to Aeneid network'')\<rparr>"
proof -
  obtain w' where sw: "switchChainAsync env 1315 w = (Inl e, w')"
    using assms(2) by (cases "switchChainAsync env 1315 w") simp
  have "ensureAeneid env (start st w) =
          (Inl (new_Error (lit ''Failed to switch to Aeneid network'')),
           (start st w)\<lparr>world := w', calls := [(SwitchChainAsync, False)]\<rparr>)"
    using assms(1) sw by (simp add: ensureAeneid_def tryCatch_def external_def throw_def)
  then have "executeRegister_try env intent file (start st w) =
          (Inl (new_Error (lit ''Failed to switch to Aeneid network'')),
           (start st w)\<lparr>world := w', calls := [(SwitchChainAsync, False)]\<rparr>)"
    by (simp add: executeRegister_try_def executeRegister_prepare_def executeRegister_stages_def
          andThen_def)
  from executeRegister_caught [OF this] show ?thesis
    by (simp add: error_text_new_Error)
qed

theorem C6_network_switch_failure_witness:
  "chainId env_switch_rejected \<noteq> 1315 \<and>
   fst (switchChainAsync env_switch_rejected 1315 ()) =
     Inl (Obj (Some (lit ''User rejected the request.''))
       (lit ''UserRejectedRequestError: User rejected the request.'')) \<and>
   fst (executeRegister env_switch_rejected intent_cat file_cat (start initialState ())) =
     Inr (Failed (lit ''Failed to switch to Aeneid network'')) \<and>
   calls (snd (executeRegister env_switch_rejected intent_cat file_cat (start initialState ()))) =
     [(SwitchChainAsync, False)] \<and>
   updates (snd (executeRegister env_switch_rejected intent_cat file_cat (start initialState ()))) =
     [initialState\<lparr>status := Error, error := new_Error (lit ''Failed to switch to Aeneid network'')\<rparr>] \<and>
   registerState (snd (executeRegister env_switch_rejected intent_cat file_cat (start initialState ()))) =
     initialState\<lparr>status := Error, error := new_Error (lit ''Failed to switch to Aeneid network'')\<rparr>"
proof -
  have c: "chainId env_switch_rejected \<noteq> 1315"
    by (simp add: env_switch_rejected_def env_ok_def)
  have r: "fst (switchChainAsync env_switch_rejected 1315 ()) =
     Inl (Obj (Some (lit ''User rejected the request.''))
       (lit ''UserRejectedRequestError: User rejected the request.''))"
    by (simp add: env_switch_rejected_def env_ok_def)
  from C6_network_switch_failure [OF c r] c r show ?thesis
    by blast
qed

text \<open>
  Claim C7. A run that returns \<open>success: true\<close> ends in the state
  \<open>{status: "success", progress: 100, error: null, ipId, txHash}\<close> with the identifiers
  that \<open>mintAndRegisterIp\<close> returned, and its result holds exactly those identifiers and
  \<open>toHttps\<close> of the image CID, of the IP metadata CID and of the NFT metadata CID.
\<close>

theorem C7_success_result:
  assumes "fst (executeRegister env intent file s) = Inr r" and "success r"
  shows "\<exists>l res u1 u2 u3.
           fst (executeRegister_prepare env intent file s) = Inr l \<and>
           fst (mintAndRegisterIp env (mint_request env l)
                  (world (snd (executeRegister_prepare env intent file s)))) = Inr res \<and>
           toHttps env (imageCid l) = Inr u1 \<and>
           toHttps env (ipMetaCid l) = Inr u2 \<and>
           toHttps env (nftMetaCid l) = Inr u3 \<and>
           r = Registered (result_ipId res) (result_txHash res) u1 u2 u3 \<and>
           registerState (snd (executeRegister env intent file s)) =
             \<lparr>status = Success, progress = 100, error = Null,
              ipId = result_ipId res, txHash = result_txHash res\<rparr>"
proof -
  obtain s' where run: "executeRegister env intent file s = (Inr r, s')"
    using assms(1) by (cases "executeRegister env intent file s") simp
  from executeRegister_success [OF run assms(2)] obtain l s1
    where p: "executeRegister_prepare env intent file s = (Inr l, s1)"
      and m: "executeRegister_mint env l s1 = (Inr (Some r), s')"
    by (auto dest: try_Inr)
  from prepare_Inr [OF p] have g: "toHttps env (imageCid l) = Inr (imageGateway l)" by simp
  from mint_Inr [OF m] obtain res u2 u3 where
    "mintAndRegisterIp env (mint_request env l) (world s1) = (Inr res, world s')"
    "toHttps env (ipMetaCid l) = Inr u2" "toHttps env (nftMetaCid l) = Inr u3"
    "r = Registered (result_ipId res) (result_txHash res) (imageGateway l) u2 u3"
    "registerState s' = \<lparr>status = Success, progress = 100, error = Null,
              ipId = result_ipId res, txHash = result_txHash res\<rparr>"
    by auto
  with g p run show ?thesis
    by (intro exI [of _ l] exI [of _ res] exI [of _ "imageGateway l"] exI [of _ u2] exI [of _ u3]) simp
qed

theorem C7_success_result_witness:
  "fst (executeRegister env_switched intent_cat file_cat (start initialState ())) =
     Inr (Registered (Some (lit ''0xABC'')) (Some (lit ''0xDEF'')) (lit ''https://ipfs.io/ipfs/bafyimage'')
       (lit ''https://ipfs.io/ipfs/bafyip'') (lit ''https://ipfs.io/ipfs/bafynft'')) \<and>
   success (Registered (Some (lit ''0xABC'')) (Some (lit ''0xDEF'')) (lit ''https://ipfs.io/ipfs/bafyimage'')
       (lit ''https://ipfs.io/ipfs/bafyip'') (lit ''https://ipfs.io/ipfs/bafynft'')) \<and>
   (\<exists>l res u1 u2 u3.
      fst (executeRegister_prepare env_switched intent_cat file_cat (start initialState ())) = Inr l \<and>
      fst (mintAndRegisterIp env_switched (mint_request env_switched l)
             (world (snd (executeRegister_prepare env_switched intent_cat file_cat (start initialState ()))))) = Inr res \<and>
      toHttps env_switched (imageCid l) = Inr u1 \<and>
      toHttps env_switched (ipMetaCid l) = Inr u2 \<and>
      toHttps env_switched (nftMetaCid l) = Inr u3 \<and>
      Registered (Some (lit ''0xABC'')) (Some (lit ''0xDEF'')) (lit ''https://ipfs.io/ipfs/bafyimage'')
       (lit ''https://ipfs.io/ipfs/bafyip'') (lit ''https://ipfs.io/ipfs/bafynft'') =
        Registered (result_ipId res) (result_txHash res) u1 u2 u3 \<and>
      registerState (snd (executeRegister env_switched intent_cat file_cat (start initialState ()))) =
        \<lparr>status = Success, progress = 100, error = Null,
         ipId = result_ipId res, txHash = result_txHash res\<rparr>)"
proof -
  have h: "fst (executeRegister env_switched intent_cat file_cat (start initialState ())) =
     Inr (Registered (Some (lit ''0xABC'')) (Some (lit ''0xDEF'')) (lit ''https://ipfs.io/ipfs/bafyimage'')
       (lit ''https://ipfs.io/ipfs/bafyip'') (lit ''https://ipfs.io/ipfs/bafynft''))"
    by (simp add: run_defs env_switched_def)
  have s: "success (Registered (Some (lit ''0xABC'')) (Some (lit ''0xDEF'')) (lit ''https://ipfs.io/ipfs/bafyimage'')
       (lit ''https://ipfs.io/ipfs/bafyip'') (lit ''https://ipfs.io/ipfs/bafynft''))"
    by simp
  from C7_success_result [OF h s] h s show ?thesis
    by blast
qed

text \<open>
  Claim C8 at a concrete sequence of two calls. The first run succeeds and records
  \<open>ipId\<close> and \<open>txHash\<close>. The wallet has left chain 1315 before the second run and refuses
  to switch back: \<open>ensureAeneid\<close> throws before the state is replaced at line 60, and the
  handler's \<open>...prev\<close> keeps both identifiers in a state whose status is error.
\<close>

theorem C8_stale_identifiers:
  "status (registerState (snd (executeRegister env_ok intent_cat file_cat (start initialState ())))) = Success \<and>
   ipId (registerState (snd (executeRegister env_ok intent_cat file_cat (start initialState ())))) = Some (lit ''0xABC'') \<and>
   status (registerState (snd (executeRegister env_switch_rejected intent_cat file_cat
     (start (registerState (snd (executeRegister env_ok intent_cat file_cat (start initialState ())))) ())))) = Error \<and>
   ipId (registerState (snd (executeRegister env_switch_rejected intent_cat file_cat
     (start (registerState (snd (executeRegister env_ok intent_cat file_cat (start initialState ())))) ())))) = Some (lit ''0xABC'') \<and>
   txHash (registerState (snd (executeRegister env_switch_rejected intent_cat file_cat
     (start (registerState (snd (executeRegister env_ok intent_cat file_cat (start initialState ())))) ())))) = Some (lit ''0xDEF'')"
  by (simp add: run_defs env_switch_rejected_def)

text \<open>
  Claim C9. The inner \<open>try\<close>/\<open>catch\<close> statement never completes normally: whatever
  the collaborators do, it returns from the function or throws, so the statements that
  follow it (lines 216-231) are never executed.
\<close>

theorem C9_duplicate_block_unreachable:
  "fst (executeRegister_mint env l s) \<noteq> Inr None"
proof
  assume a: "fst (executeRegister_mint env l s) = Inr None"
  then obtain s' where "executeRegister_mint env l s = (Inr None, s')"
    by (cases "executeRegister_mint env l s") simp
  from mint_Inr [OF this] show False by simp
qed

text \<open>
  Claim C10. When the body of the outer \<open>try\<close> throws \<open>e\<close>, the state after the handler
  is the state just before the failure with \<open>status\<close> set to error and \<open>error\<close> set to
  \<open>e\<close>; in particular \<open>progress\<close>, \<open>ipId\<close> and \<open>txHash\<close> are those of the last update
  made before the failure (those of the state the run started from when there was none),
  and \<open>progress\<close> is not reset.
\<close>

theorem C10_error_keeps_other_fields:
  assumes "fst (executeRegister_try env intent file (start st w)) = Inl e"
  shows "registerState (snd (executeRegister env intent file (start st w))) =
           (registerState (snd (executeRegister_try env intent file (start st w))))
             \<lparr>status := Error, error := e\<rparr> \<and>
         progress (registerState (snd (executeRegister env intent file (start st w)))) =
           progress (last (st # updates (snd (executeRegister_try env intent file (start st w))))) \<and>
         ipId (registerState (snd (executeRegister env intent file (start st w)))) =
           ipId (last (st # updates (snd (executeRegister_try env intent file (start st w))))) \<and>
         txHash (registerState (snd (executeRegister env intent file (start st w)))) =
           txHash (last (st # updates (snd (executeRegister_try env intent file (start st w)))))"
proof -
  obtain s1 where t: "executeRegister_try env intent file (start st w) = (Inl e, s1)"
    using assms by (cases "executeRegister_try env intent file (start st w)") simp
  have "synced st (snd (executeRegister_try env intent file (start st w)))"
    by (rule keepsD [OF synced_try synced_start])
  then have "registerState s1 = last (st # updates s1)"
    by (simp add: t synced_def)
  with executeRegister_caught [OF t] show ?thesis by (simp add: t)
qed

theorem C10_error_keeps_other_fields_witness:
  "fst (executeRegister_try env_upload_fails intent_cat file_cat (start initialState ())) = Inl (Str (lit ''Gateway timeout'')) \<and>
   registerState (snd (executeRegister env_upload_fails intent_cat file_cat (start initialState ()))) =
     (registerState (snd (executeRegister_try env_upload_fails intent_cat file_cat (start initialState ()))))
       \<lparr>status := Error, error := Str (lit ''Gateway timeout'')\<rparr> \<and>
   progress (registerState (snd (executeRegister env_upload_fails intent_cat file_cat (start initialState ())))) =
     progress (last (initialState # updates (snd (executeRegister_try env_upload_fails intent_cat file_cat (start initialState ()))))) \<and>
   progress (last (initialState # updates (snd (executeRegister_try env_upload_fails intent_cat file_cat (start initialState ()))))) = 60"
proof -
  have h: "fst (executeRegister_try env_upload_fails intent_cat file_cat (start initialState ())) = Inl (Str (lit ''Gateway timeout''))"
    by (simp add: run_defs env_upload_fails_def)
  have p: "progress (last (initialState # updates (snd (executeRegister_try env_upload_fails intent_cat file_cat (start initialState ()))))) = 60"
    by (simp add: run_defs env_upload_fails_def)
  from C10_error_keeps_other_fields [OF h] h p show ?thesis
    by blast
qed

end
